theory Spec2Isabelle
  imports Complex_Main "HOL-Library.Sublist" "HOL-Library.Log_Nat"
begin

chapter \<open>The analysis pipeline: result store, profiler, chart selector, insight client, orchestrator\<close>

section \<open>Python helpers\<close>

text \<open>
  A string is the list of the UTF-8 bytes of a Python \<open>str\<close>. \<open>str.lower\<close> is modelled
  on the ASCII letters, which is all the extension tests below can observe;
  \<open>s.rsplit('.', 1)\<close> splits at the last dot and returns a one-element list when there is
  none; \<open>xs[1]\<close> raises IndexError out of range.
\<close>

datatype py_error =
    IndexError | KeyError | AttributeError | IntegrityError | ValueError | TypeError
  | OSError | EmptyDataError | OperationalError

definition py_lower_char :: "char \<Rightarrow> char" where
  "py_lower_char c =
     (case map_of (zip ''ABCDEFGHIJKLMNOPQRSTUVWXYZ'' ''abcdefghijklmnopqrstuvwxyz'') c of
        None \<Rightarrow> c
      | Some l \<Rightarrow> l)"

definition py_lower :: "string \<Rightarrow> string" where
  "py_lower s = map py_lower_char s"

definition rsplit_dot :: "string \<Rightarrow> string list" where
  "rsplit_dot s =
     (if CHR ''.'' \<in> set s
      then [rev (drop 1 (dropWhile (\<lambda>c. c \<noteq> CHR ''.'') (rev s))),
            rev (takeWhile (\<lambda>c. c \<noteq> CHR ''.'') (rev s))]
      else [s])"

definition py_index :: "'a list \<Rightarrow> nat \<Rightarrow> py_error + 'a" where
  "py_index xs i = (if i < length xs then Inr (xs ! i) else Inl IndexError)"

text \<open>
  The characters of a string: a byte that starts a character, with the continuation bytes
  (\<open>0x80\<close> to \<open>0xBF\<close>) that follow it. \<open>str.strip()\<close> removes from both ends the
  characters for which \<open>str.isspace\<close> holds: the ASCII ones and U+0085, U+00A0, U+1680,
  U+2000 to U+200A, U+2028, U+2029, U+202F, U+205F and U+3000.
\<close>

definition is_continuation :: "char \<Rightarrow> bool" where
  "is_continuation b = (128 \<le> (of_char b :: nat) \<and> (of_char b :: nat) < 192)"

function utf8_chars :: "string \<Rightarrow> string list" where
  "utf8_chars [] = []"
| "utf8_chars (b # bs) =
     (b # takeWhile is_continuation bs) # utf8_chars (dropWhile is_continuation bs)"
  by pat_completeness auto
termination
  by (relation "measure length") (auto simp: less_Suc_eq_le length_dropWhile_le)

definition whitespace_chars :: "string list" where
  "whitespace_chars =
     [[CHR 0x09], [CHR 0x0A], [CHR 0x0B], [CHR 0x0C], [CHR 0x0D],
      [CHR 0x1C], [CHR 0x1D], [CHR 0x1E], [CHR 0x1F], [CHR 0x20],
      [CHR 0xC2, CHR 0x85], [CHR 0xC2, CHR 0xA0], [CHR 0xE1, CHR 0x9A, CHR 0x80],
      [CHR 0xE2, CHR 0x80, CHR 0x80], [CHR 0xE2, CHR 0x80, CHR 0x81],
      [CHR 0xE2, CHR 0x80, CHR 0x82], [CHR 0xE2, CHR 0x80, CHR 0x83],
      [CHR 0xE2, CHR 0x80, CHR 0x84], [CHR 0xE2, CHR 0x80, CHR 0x85],
      [CHR 0xE2, CHR 0x80, CHR 0x86], [CHR 0xE2, CHR 0x80, CHR 0x87],
      [CHR 0xE2, CHR 0x80, CHR 0x88], [CHR 0xE2, CHR 0x80, CHR 0x89],
      [CHR 0xE2, CHR 0x80, CHR 0x8A], [CHR 0xE2, CHR 0x80, CHR 0xA8],
      [CHR 0xE2, CHR 0x80, CHR 0xA9], [CHR 0xE2, CHR 0x80, CHR 0xAF],
      [CHR 0xE2, CHR 0x81, CHR 0x9F], [CHR 0xE3, CHR 0x80, CHR 0x80]]"

definition py_isspace :: "string \<Rightarrow> bool" where
  "py_isspace ch = (ch \<in> set whitespace_chars)"

definition py_strip :: "string \<Rightarrow> string" where
  "py_strip s = concat (rev (dropWhile py_isspace (rev (dropWhile py_isspace (utf8_chars s)))))"

definition path_join :: "string \<Rightarrow> string \<Rightarrow> string" where
  \<comment> \<open>\<open>os.path.join\<close> on POSIX, for a relative second component.\<close>
  "path_join dir name =
     (if dir = [] then name
      else if last dir = CHR ''/'' then dir @ name
      else dir @ ''/'' @ name)"

section \<open>Result store (core/storage.py)\<close>

text \<open>
  The two tables of \<open>_init_database\<close>. \<open>CURRENT_TIMESTAMP\<close> is the clock reading at the
  moment of the insert, a number of seconds; the AUTOINCREMENT keys count the rows, since
  no operation deletes one.
\<close>

type_synonym timestamp = nat

record session_row =
  session_pk :: nat
  session_id :: string
  session_filename :: string
  session_filepath :: string
  uploaded_at :: timestamp
  status :: string

record result_row =
  result_pk :: nat
  result_session_id :: string
  result_type :: string
  result_data :: string
  created_at :: timestamp

record database =
  sessions :: "session_row list"
  analysis_results :: "result_row list"

text \<open>
  The values of the absent \<open>config\<close> module that the modelled code reads. \<open>MAX_CHARTS\<close>
  is a number of charts.
\<close>

record config =
  UPLOAD_FOLDER :: string
  ALLOWED_EXTENSIONS :: "string list"
  MAX_CHARTS :: nat
  LLM_PROVIDER :: string
  LLM_BASE_URL :: string
  LLM_MODEL :: string
  LLM_API_KEY :: string

definition allowed_file :: "config \<Rightarrow> string \<Rightarrow> bool" where
  "allowed_file cfg filename =
     (CHR ''.'' \<in> set filename \<and>
      (case py_index (rsplit_dot filename) 1 of
         Inl e \<Rightarrow> False
       | Inr ext \<Rightarrow> py_lower ext \<in> set (ALLOWED_EXTENSIONS cfg)))"

text \<open>
  \<open>save_upload\<close>: \<open>secure\<close> is werkzeug's \<open>secure_filename\<close> and \<open>stamp\<close> the formatted
  \<open>datetime.now()\<close>. The column \<open>session_id\<close> is UNIQUE, so the insert raises on a
  session that exists and leaves the table as it was.
\<close>

definition save_upload ::
  "config \<Rightarrow> (string \<Rightarrow> string) \<Rightarrow> string \<Rightarrow> timestamp \<Rightarrow> string \<Rightarrow> string \<Rightarrow> database
     \<Rightarrow> (py_error + (string \<times> string) option) \<times> database" where
  "save_upload cfg secure stamp now file_name sid db =
     (if file_name \<noteq> [] \<and> allowed_file cfg file_name then
        (let filename = secure file_name;
             unique_filename = sid @ ''_'' @ stamp @ ''_'' @ filename;
             filepath = path_join (UPLOAD_FOLDER cfg) unique_filename
         in if sid \<in> set (map session_id (sessions db)) then (Inl IntegrityError, db)
            else (Inr (Some (filepath, filename)),
                  db\<lparr>sessions := sessions db @
                     [\<lparr>session_pk = Suc (length (sessions db)), session_id = sid,
                       session_filename = filename, session_filepath = filepath,
                       uploaded_at = now, status = ''uploaded''\<rparr>]\<rparr>))
      else (Inr None, db))"

definition get_session :: "string \<Rightarrow> database \<Rightarrow> session_row option" where
  "get_session sid db = find (\<lambda>s. session_id s = sid) (sessions db)"

definition update_session_status :: "string \<Rightarrow> string \<Rightarrow> database \<Rightarrow> database" where
  "update_session_status sid st db =
     db\<lparr>sessions := map (\<lambda>s. if session_id s = sid then s\<lparr>status := st\<rparr> else s) (sessions db)\<rparr>"

definition save_analysis_result ::
  "timestamp \<Rightarrow> string \<Rightarrow> string \<Rightarrow> string \<Rightarrow> database \<Rightarrow> database" where
  "save_analysis_result now sid rtype rdata db =
     db\<lparr>analysis_results := analysis_results db @
        [\<lparr>result_pk = Suc (length (analysis_results db)), result_session_id = sid,
          result_type = rtype, result_data = rdata, created_at = now\<rparr>]\<rparr>"





text \<open>The operations of the store that touch the database, and a run of them in sequence.\<close>

datatype storage_op =
    Save_upload string string string
  | Get_session string
  | Update_session_status string string
  | Save_analysis_result string string string
  | Get_analysis_result string string

fun is_save :: "timestamp \<times> storage_op \<Rightarrow> bool" where
  "is_save (now, Save_analysis_result sid rtype rdata) = True"
| "is_save (now, other) = False"

fun storage_step :: "config \<Rightarrow> (string \<Rightarrow> string) \<Rightarrow> timestamp \<times> storage_op \<Rightarrow> database \<Rightarrow> database" where
  "storage_step cfg secure (now, Save_upload stamp file_name sid) db =
     snd (save_upload cfg secure stamp now file_name sid db)"
| "storage_step cfg secure (now, Get_session sid) db = db"
| "storage_step cfg secure (now, Update_session_status sid st) db = update_session_status sid st db"
| "storage_step cfg secure (now, Save_analysis_result sid rtype rdata) db =
     save_analysis_result now sid rtype rdata db"
| "storage_step cfg secure (now, Get_analysis_result sid rtype) db = db"

fun run_ops :: "config \<Rightarrow> (string \<Rightarrow> string) \<Rightarrow> (timestamp \<times> storage_op) list \<Rightarrow> database \<Rightarrow> database" where
  "run_ops cfg secure [] db = db"
| "run_ops cfg secure (op # ops) db = run_ops cfg secure ops (storage_step cfg secure op db)"

section \<open>Tabular data (pandas)\<close>

text \<open>
  A loaded DataFrame: the length of its index and its columns in order, each with its
  label, the kind of its dtype and one cell per row (\<open>None\<close> is a null cell). Only the
  nullness of a cell and the equality of two values are observed by the code below, so
  the type of values is left open. \<open>select_dtypes(include="number")\<close> (and
  \<open>[np.number]\<close>) keeps the integer and floating-point columns; \<open>include=['object']\<close>
  keeps the columns of dtype \<open>object\<close> (text); boolean, datetime and categorical columns
  are of neither kind.
\<close>

datatype dtype_kind = Number | Object | Other_dtype

record 'v column =
  col_label :: string
  col_dtype :: dtype_kind
  col_cells :: "'v option list"

record 'v dataframe =
  n_rows :: nat
  columns :: "'v column list"

definition well_formed :: "'v dataframe \<Rightarrow> bool" where
  "well_formed df =
     (list_all (\<lambda>c. length (col_cells c) = n_rows df) (columns df) \<and>
      distinct (map col_label (columns df)))"

definition shape :: "'v dataframe \<Rightarrow> nat \<times> nat" where
  "shape df = (n_rows df, length (columns df))"

definition empty :: "'v dataframe \<Rightarrow> bool" where
  \<comment> \<open>\<open>df.empty\<close>: an axis of length 0.\<close>
  "empty df = (n_rows df = 0 \<or> columns df = [])"

definition select_dtypes_number :: "'v dataframe \<Rightarrow> 'v column list" where
  "select_dtypes_number df = filter (\<lambda>c. col_dtype c = Number) (columns df)"

definition select_dtypes_exclude_number :: "'v dataframe \<Rightarrow> 'v column list" where
  "select_dtypes_exclude_number df = filter (\<lambda>c. col_dtype c \<noteq> Number) (columns df)"

definition select_dtypes_object :: "'v dataframe \<Rightarrow> 'v column list" where
  "select_dtypes_object df = filter (\<lambda>c. col_dtype c = Object) (columns df)"

definition isnull_sum :: "'v column \<Rightarrow> nat" where
  \<comment> \<open>one entry of \<open>df.isnull().sum()\<close>\<close>
  "isnull_sum c = length (filter (\<lambda>x. x = None) (col_cells c))"

definition nunique :: "'v column \<Rightarrow> nat" where
  \<comment> \<open>\<open>df[col].nunique()\<close>: the distinct values, nulls dropped\<close>
  "nunique c = length (remdups (concat (map (\<lambda>x. case x of None \<Rightarrow> [] | Some v \<Rightarrow> [v]) (col_cells c))))"

subsection \<open>Loading a dataset (Storage.load\_dataframe)\<close>

text \<open>
  \<open>pd.read_csv\<close> and \<open>pd.read_excel\<close> are the environment: for a path each either raises
  or returns a frame. pandas raises \<open>EmptyDataError\<close> on a file with nothing to parse.
\<close>

datatype 'v read_result = Raises py_error | Returns "'v dataframe"

record 'v readers =
  read_csv :: "string \<Rightarrow> 'v read_result"
  read_excel :: "string \<Rightarrow> 'v read_result"

definition load_dataframe :: "'v readers \<Rightarrow> string \<Rightarrow> 'v dataframe option" where
  "load_dataframe io filepath =
     (case py_index (rsplit_dot filepath) 1 of
        Inl e \<Rightarrow> None
      | Inr ext \<Rightarrow>
          (let file_ext = py_lower ext in
           if file_ext = ''csv'' then
             (case read_csv io filepath of Raises e \<Rightarrow> None | Returns df \<Rightarrow> Some df)
           else if file_ext \<in> set [''xlsx'', ''xls''] then
             (case read_excel io filepath of Raises e \<Rightarrow> None | Returns df \<Rightarrow> Some df)
           else None))"

text \<open>
  The specification's three causes of failure, in its words. The extension of a path is
  what follows its last dot, compared without regard to case; a path with no dot has none.
  A file is empty when pandas finds nothing to parse in it, and unreadable when the reader
  of its format fails in any other way.
\<close>

definition spec_extension :: "string \<Rightarrow> string option" where
  "spec_extension filepath =
     (if CHR ''.'' \<in> set filepath
      then Some (py_lower (rev (takeWhile (\<lambda>c. c \<noteq> CHR ''.'') (rev filepath))))
      else None)"

definition spec_unsupported_extension :: "string \<Rightarrow> bool" where
  "spec_unsupported_extension filepath =
     (spec_extension filepath \<notin> {Some ''csv'', Some ''xlsx'', Some ''xls''})"

definition spec_reader :: "'v readers \<Rightarrow> string \<Rightarrow> 'v read_result" where
  "spec_reader io filepath =
     (if spec_extension filepath = Some ''csv'' then read_csv io filepath else read_excel io filepath)"

definition spec_empty_file :: "'v readers \<Rightarrow> string \<Rightarrow> bool" where
  "spec_empty_file io filepath = (spec_reader io filepath = Raises EmptyDataError)"

definition spec_unreadable :: "'v readers \<Rightarrow> string \<Rightarrow> bool" where
  "spec_unreadable io filepath =
     (case spec_reader io filepath of Raises e \<Rightarrow> e \<noteq> EmptyDataError | Returns df \<Rightarrow> False)"

section \<open>Dataset profiler (step 2 of Agent.run\_analysis)\<close>

text \<open>
  A Python \<open>float\<close> is an IEEE 754 double, here the rational number it stands for.
  \<open>to_double\<close> rounds a rational to the nearest double, a tie going to the even
  significand: with \<open>2 ^ e \<le> |x| < 2 ^ (e + 1)\<close> the doubles around \<open>x\<close> are the
  multiples of \<open>2 ^ (e - 52)\<close>, and of \<open>2 ^ (- 1074)\<close> below the normal range. Overflow
  is left out: no value of the computation below exceeds 100. Each arithmetic operation
  on floats returns the double nearest to the exact result; \<open>a / b\<close> on two \<open>int\<close>s does
  so too. \<open>round(x, n)\<close> rounds the exact value of \<open>x\<close> to \<open>n\<close> decimals, a tie going
  to the even digit, and returns the double nearest to that decimal.
\<close>

definition round_half_even :: "rat \<Rightarrow> int" where
  "round_half_even x =
     (let f = \<lfloor>x\<rfloor>; d = x - of_int f
      in if d < 1 / 2 then f else if 1 / 2 < d then f + 1 else if even f then f else f + 1)"

definition pow2 :: "int \<Rightarrow> rat" where
  "pow2 k = (if 0 \<le> k then 2 ^ nat k else 1 / 2 ^ nat (- k))"

definition binary_exponent :: "rat \<Rightarrow> int" where
  \<comment> \<open>for \<open>x > 0\<close>, the \<open>e\<close> with \<open>2 ^ e \<le> x < 2 ^ (e + 1)\<close>\<close>
  "binary_exponent x = (if 1 \<le> x then bitlen \<lfloor>x\<rfloor> - 1 else - bitlen (\<lceil>1 / x\<rceil> - 1))"

definition to_double :: "rat \<Rightarrow> rat" where
  "to_double x =
     (if x = 0 then 0
      else (let e = max (binary_exponent \<bar>x\<bar>) (- 1022);
                ulp = pow2 (e - 52)
            in sgn x * of_int (round_half_even (\<bar>x\<bar> / ulp)) * ulp))"

definition int_truediv :: "nat \<Rightarrow> nat \<Rightarrow> rat" where
  "int_truediv a b = to_double (of_nat a / of_nat b)"

definition float_sub :: "rat \<Rightarrow> rat \<Rightarrow> rat" where
  "float_sub a b = to_double (a - b)"

definition float_mul :: "rat \<Rightarrow> rat \<Rightarrow> rat" where
  "float_mul a b = to_double (a * b)"

definition py_round :: "rat \<Rightarrow> nat \<Rightarrow> rat" where
  "py_round x n = to_double (of_int (round_half_even (x * 10 ^ n)) / 10 ^ n)"

record profile =
  total_rows :: nat
  total_columns :: nat
  numeric :: "string list"
  categorical :: "string list"
  missing_values_per_column :: "(string \<times> nat) list"
  completeness_score :: rat

definition build_profile :: "'v dataframe \<Rightarrow> profile" where
  "build_profile df =
     (let numeric_cols = map col_label (select_dtypes_number df);
          categorical_cols = map col_label (select_dtypes_exclude_number df);
          rows = fst (shape df);
          cols = snd (shape df);
          total_cells = rows * cols;
          missing_cells = sum_list (map isnull_sum (columns df))
      in \<lparr>total_rows = rows, total_columns = cols,
          numeric = numeric_cols, categorical = categorical_cols,
          missing_values_per_column = map (\<lambda>c. (col_label c, isnull_sum c)) (columns df),
          completeness_score =
            (if total_cells > 0
             then py_round (float_mul (float_sub 1 (int_truediv missing_cells total_cells)) 100) 2
             else 0)\<rparr>)"

text \<open>
  The specification's count of missing cells, the null cells of the whole dataset, and its
  formula \<open>round((1 - missing / total) * 100, 2)\<close>, read as the Python expression it is.
\<close>

definition spec_missing_cells :: "'v dataframe \<Rightarrow> nat" where
  "spec_missing_cells df = length (filter (\<lambda>x. x = None) (concat (map col_cells (columns df))))"

definition spec_total_cells :: "'v dataframe \<Rightarrow> nat" where
  "spec_total_cells df = n_rows df * length (columns df)"

definition spec_score :: "nat \<Rightarrow> nat \<Rightarrow> rat" where
  "spec_score missing_cells total_cells =
     py_round (float_mul (float_sub 1 (int_truediv missing_cells total_cells)) 100) 2"

text \<open>
  Three datasets of two columns: 67 null cells of 160, 73 of 160, and the 10 of 500 of the
  specification's scenario.
\<close>

definition nulls_frame :: "nat \<Rightarrow> nat \<Rightarrow> nat dataframe" where
  "nulls_frame k n =
     \<lparr>n_rows = n,
      columns = [\<lparr>col_label = ''amount'', col_dtype = Number,
                   col_cells = replicate k None @ replicate (n - k) (Some 1)\<rparr>,
                 \<lparr>col_label = ''region'', col_dtype = Object,
                   col_cells = replicate n (Some 2)\<rparr>]\<rparr>"

section \<open>Chart selector and renderer (core/analyzer.py)\<close>

datatype chart_type = Histogram | Bar_chart | Heatmap | Boxplot

record chart_descriptor =
  chart_kind :: chart_type
  chart_title :: string
  chart_filename :: string
  chart_filepath :: string
  chart_description :: string

record 'v data_analyzer =
  analyzer_df :: "'v dataframe"
  analyzer_session_id :: string
  charts_dir :: string

definition DataAnalyzer :: "config \<Rightarrow> 'v dataframe \<Rightarrow> string \<Rightarrow> 'v data_analyzer" where
  "DataAnalyzer cfg df sid =
     \<lparr>analyzer_df = df, analyzer_session_id = sid,
      charts_dir = path_join (path_join (UPLOAD_FOLDER cfg) ''charts'') sid\<rparr>"

definition replace_spaces :: "string \<Rightarrow> string" where
  \<comment> \<open>\<open>column.replace(" ", "_")\<close>\<close>
  "replace_spaces s = map (\<lambda>c. if c = CHR '' '' then CHR ''_'' else c) s"

definition histogram_descriptor :: "string \<Rightarrow> string \<Rightarrow> chart_descriptor" where
  "histogram_descriptor dir column =
     \<lparr>chart_kind = Histogram,
      chart_title = ''Distribution of '' @ column,
      chart_filename = ''hist_'' @ replace_spaces column @ ''.png'',
      chart_filepath = path_join dir (''hist_'' @ replace_spaces column @ ''.png''),
      chart_description = ''Histogram showing the distribution of '' @ column @ '' values''\<rparr>"

definition bar_chart_descriptor :: "string \<Rightarrow> string \<Rightarrow> chart_descriptor" where
  "bar_chart_descriptor dir column =
     \<lparr>chart_kind = Bar_chart,
      chart_title = ''Top Categories in '' @ column,
      chart_filename = ''bar_'' @ replace_spaces column @ ''.png'',
      chart_filepath = path_join dir (''bar_'' @ replace_spaces column @ ''.png''),
      chart_description = ''Bar chart showing the frequency of categories in '' @ column\<rparr>"

definition heatmap_descriptor :: "string \<Rightarrow> chart_descriptor" where
  "heatmap_descriptor dir =
     \<lparr>chart_kind = Heatmap,
      chart_title = ''Correlation Heatmap'',
      chart_filename = ''correlation_heatmap.png'',
      chart_filepath = path_join dir ''correlation_heatmap.png'',
      chart_description = ''Heatmap showing correlations between numeric variables''\<rparr>"

definition boxplot_descriptor :: "string \<Rightarrow> chart_descriptor" where
  "boxplot_descriptor dir =
     \<lparr>chart_kind = Boxplot,
      chart_title = ''Box Plot - Distribution Comparison'',
      chart_filename = ''boxplot_comparison.png'',
      chart_filepath = path_join dir ''boxplot_comparison.png'',
      chart_description = ''Box plot comparing distributions of numeric variables''\<rparr>"

text \<open>
  Each \<open>_create_*\<close> method draws and saves inside \<open>try\<close> and appends its descriptor to
  \<open>self.charts\<close> last; on any exception it prints and returns. \<open>renders kind cols\<close> says
  whether drawing and saving the chart of that kind over those columns goes through.
\<close>

type_synonym renderer = "chart_type \<Rightarrow> string list \<Rightarrow> bool"

definition create_histogram ::
  "renderer \<Rightarrow> 'v data_analyzer \<Rightarrow> string \<Rightarrow> chart_descriptor list \<Rightarrow> chart_descriptor list" where
  "create_histogram renders an column cs =
     (if renders Histogram [column] then cs @ [histogram_descriptor (charts_dir an) column] else cs)"

definition create_bar_chart ::
  "renderer \<Rightarrow> 'v data_analyzer \<Rightarrow> string \<Rightarrow> chart_descriptor list \<Rightarrow> chart_descriptor list" where
  "create_bar_chart renders an column cs =
     (if renders Bar_chart [column] then cs @ [bar_chart_descriptor (charts_dir an) column] else cs)"

definition create_correlation_heatmap ::
  "renderer \<Rightarrow> 'v data_analyzer \<Rightarrow> string list \<Rightarrow> chart_descriptor list \<Rightarrow> chart_descriptor list" where
  "create_correlation_heatmap renders an numeric_cols cs =
     (if renders Heatmap numeric_cols then cs @ [heatmap_descriptor (charts_dir an)] else cs)"

definition create_boxplot ::
  "renderer \<Rightarrow> 'v data_analyzer \<Rightarrow> string list \<Rightarrow> chart_descriptor list \<Rightarrow> chart_descriptor list" where
  "create_boxplot renders an numeric_cols cs =
     (if renders Boxplot numeric_cols then cs @ [boxplot_descriptor (charts_dir an)] else cs)"

text \<open>
  \<open>analyze\<close>: the local counter \<open>chart_count\<close> and the list \<open>self.charts\<close> are the state of
  the run. The two \<open>for\<close> loops leave at the \<open>break\<close>. A column is carried with its label,
  so \<open>self.df[col]\<close> is the column itself.
\<close>

record analysis_state =
  chart_count :: nat
  charts :: "chart_descriptor list"

fun histogram_loop ::
  "config \<Rightarrow> renderer \<Rightarrow> 'v data_analyzer \<Rightarrow> 'v column list \<Rightarrow> analysis_state \<Rightarrow> analysis_state" where
  "histogram_loop cfg renders an [] s = s"
| "histogram_loop cfg renders an (col # cols) s =
     (if chart_count s \<ge> MAX_CHARTS cfg then s
      else histogram_loop cfg renders an cols
             \<lparr>chart_count = chart_count s + 1,
              charts = create_histogram renders an (col_label col) (charts s)\<rparr>)"

fun bar_chart_loop ::
  "config \<Rightarrow> renderer \<Rightarrow> 'v data_analyzer \<Rightarrow> 'v column list \<Rightarrow> analysis_state \<Rightarrow> analysis_state" where
  "bar_chart_loop cfg renders an [] s = s"
| "bar_chart_loop cfg renders an (col # cols) s =
     (if chart_count s \<ge> MAX_CHARTS cfg then s
      else if nunique col \<le> 15 then
        bar_chart_loop cfg renders an cols
          \<lparr>chart_count = chart_count s + 1,
           charts = create_bar_chart renders an (col_label col) (charts s)\<rparr>
      else bar_chart_loop cfg renders an cols s)"

definition heatmap_step ::
  "config \<Rightarrow> renderer \<Rightarrow> 'v data_analyzer \<Rightarrow> 'v column list \<Rightarrow> analysis_state \<Rightarrow> analysis_state" where
  "heatmap_step cfg renders an numeric_cols s =
     (if length numeric_cols \<ge> 2 \<and> chart_count s < MAX_CHARTS cfg
      then \<lparr>chart_count = chart_count s + 1,
            charts = create_correlation_heatmap renders an (map col_label numeric_cols) (charts s)\<rparr>
      else s)"

definition boxplot_step ::
  "config \<Rightarrow> renderer \<Rightarrow> 'v data_analyzer \<Rightarrow> 'v column list \<Rightarrow> analysis_state \<Rightarrow> analysis_state" where
  "boxplot_step cfg renders an numeric_cols s =
     (if length numeric_cols \<ge> 1 \<and> chart_count s < MAX_CHARTS cfg
      then \<lparr>chart_count = chart_count s + 1,
            charts = create_boxplot renders an (map col_label (take 3 numeric_cols)) (charts s)\<rparr>
      else s)"

definition analyze_state :: "config \<Rightarrow> renderer \<Rightarrow> 'v data_analyzer \<Rightarrow> analysis_state" where
  "analyze_state cfg renders an =
     (let numeric_cols = select_dtypes_number (analyzer_df an);
          categorical_cols = select_dtypes_object (analyzer_df an);
          s0 = \<lparr>chart_count = 0, charts = []\<rparr>;
          s1 = histogram_loop cfg renders an (take 3 numeric_cols) s0;
          s2 = bar_chart_loop cfg renders an (take 2 categorical_cols) s1;
          s3 = heatmap_step cfg renders an numeric_cols s2
      in boxplot_step cfg renders an numeric_cols s3)"

definition analyze :: "config \<Rightarrow> renderer \<Rightarrow> 'v data_analyzer \<Rightarrow> chart_descriptor list" where
  "analyze cfg renders an = charts (analyze_state cfg renders an)"

text \<open>
  What it means for a column to receive a bar chart, the columns the second loop visits,
  and the budget left when the loop reaches a column: the histograms attempted and the bar
  charts attempted before it number fewer than \<open>MAX_CHARTS\<close>.
\<close>

definition receives_bar_chart :: "'v data_analyzer \<Rightarrow> 'v column \<Rightarrow> chart_descriptor list \<Rightarrow> bool" where
  "receives_bar_chart an c cs = (bar_chart_descriptor (charts_dir an) (col_label c) \<in> set cs)"

definition bar_chart_candidates :: "'v data_analyzer \<Rightarrow> 'v column list" where
  "bar_chart_candidates an = take 2 (select_dtypes_object (analyzer_df an))"

definition budget_left_at :: "config \<Rightarrow> 'v data_analyzer \<Rightarrow> 'v column \<Rightarrow> bool" where
  "budget_left_at cfg an c =
     (length (take 3 (select_dtypes_number (analyzer_df an))) +
      length (filter (\<lambda>x. nunique x \<le> 15) (takeWhile (\<lambda>x. x \<noteq> c) (bar_chart_candidates an)))
        < MAX_CHARTS cfg)"

text \<open>Small concrete inputs used below.\<close>

definition budget_config :: "nat \<Rightarrow> config" where
  "budget_config n =
     \<lparr>UPLOAD_FOLDER = ''uploads'', ALLOWED_EXTENSIONS = [''csv'', ''xlsx'', ''xls''],
      MAX_CHARTS = n, LLM_PROVIDER = ''ollama'',
      LLM_BASE_URL = ''http://localhost:11434/api/generate'',
      LLM_MODEL = ''llama3'', LLM_API_KEY = []\<rparr>"

definition two_numeric_frame :: "nat dataframe" where
  "two_numeric_frame =
     \<lparr>n_rows = 2,
      columns = [\<lparr>col_label = ''price'', col_dtype = Number, col_cells = [Some 1, Some 2]\<rparr>,
                 \<lparr>col_label = ''qty'', col_dtype = Number, col_cells = [Some 3, None]\<rparr>]\<rparr>"

definition sales_frame :: "nat dataframe" where
  "sales_frame =
     \<lparr>n_rows = 2,
      columns = [\<lparr>col_label = ''price'', col_dtype = Number, col_cells = [Some 1, Some 2]\<rparr>,
                 \<lparr>col_label = ''qty'', col_dtype = Number, col_cells = [Some 3, None]\<rparr>,
                 \<lparr>col_label = ''city'', col_dtype = Object, col_cells = [Some 4, Some 5]\<rparr>]\<rparr>"

definition active_column :: "bool column" where
  "active_column =
     \<lparr>col_label = ''active'', col_dtype = Other_dtype, col_cells = [Some True, Some False]\<rparr>"

definition flag_frame :: "bool dataframe" where
  "flag_frame = \<lparr>n_rows = 2, columns = [active_column]\<rparr>"

definition city_column :: "nat column" where
  "city_column = \<lparr>col_label = ''city'', col_dtype = Object, col_cells = [Some 1, Some 2, Some 1]\<rparr>"

definition city_frame :: "nat dataframe" where
  "city_frame =
     \<lparr>n_rows = 3,
      columns = [\<lparr>col_label = ''price'', col_dtype = Number, col_cells = [Some 5, None, Some 7]\<rparr>,
                 city_column]\<rparr>"

text \<open>The invariant of a run: no more descriptors than counted charts, no more counted than the budget.\<close>

definition within_budget :: "config \<Rightarrow> analysis_state \<Rightarrow> bool" where
  "within_budget cfg s = (length (charts s) \<le> chart_count s \<and> chart_count s \<le> MAX_CHARTS cfg)"

section \<open>Insight client (core/llm\_client.py)\<close>

text \<open>
  The endpoint is the environment. A call of \<open>requests.post\<close> either raises (timeout,
  connection error) or returns a response with a status code and a body;
  \<open>response.json()\<close> raises on a body that is not JSON and returns the decoded value
  otherwise: \<open>None\<close>, a \<open>bool\<close>, a number (by its value, or a non-finite float), a
  \<open>str\<close>, a \<open>list\<close> or a \<open>dict\<close>, in which the last of several equal keys counts.
\<close>

datatype json =
    JNull
  | JBool bool
  | JNumber rat
  | JNonfinite
  | JString string
  | JArray "json list"
  | JObject "(string \<times> json) list"

definition truthy :: "json \<Rightarrow> bool" where
  \<comment> \<open>the truth value Python gives to a decoded value\<close>
  "truthy v =
     (case v of
        JNull \<Rightarrow> False
      | JBool b \<Rightarrow> b
      | JNumber r \<Rightarrow> r \<noteq> 0
      | JNonfinite \<Rightarrow> True
      | JString s \<Rightarrow> s \<noteq> []
      | JArray xs \<Rightarrow> xs \<noteq> []
      | JObject kvs \<Rightarrow> kvs \<noteq> [])"

definition dict_lookup :: "(string \<times> json) list \<Rightarrow> string \<Rightarrow> json option" where
  "dict_lookup kvs k = map_of (rev kvs) k"

definition getitem_key :: "json \<Rightarrow> string \<Rightarrow> py_error + json" where
  \<comment> \<open>\<open>v[k]\<close> for a string \<open>k\<close>\<close>
  "getitem_key v k =
     (case v of
        JObject kvs \<Rightarrow> (case dict_lookup kvs k of None \<Rightarrow> Inl KeyError | Some x \<Rightarrow> Inr x)
      | other \<Rightarrow> Inl TypeError)"

definition getitem_0 :: "json \<Rightarrow> py_error + json" where
  \<comment> \<open>\<open>v[0]\<close>\<close>
  "getitem_0 v =
     (case v of
        JArray xs \<Rightarrow> (case xs of [] \<Rightarrow> Inl IndexError | x # rest \<Rightarrow> Inr x)
      | JString s \<Rightarrow> (case utf8_chars s of [] \<Rightarrow> Inl IndexError | ch # rest \<Rightarrow> Inr (JString ch))
      | JObject kvs \<Rightarrow> Inl KeyError
      | other \<Rightarrow> Inl TypeError)"

definition and_then :: "py_error + 'a \<Rightarrow> ('a \<Rightarrow> py_error + 'b) \<Rightarrow> py_error + 'b" where
  "and_then r f = (case r of Inl e \<Rightarrow> Inl e | Inr x \<Rightarrow> f x)"

datatype http_body = Unparsable | Parsed json

datatype http_result = Request_failed | Response nat http_body

datatype payload =
    Generate string string bool
  | Chat_completions string "(string \<times> string) list" nat rat

record http_request =
  url :: string
  authorization :: "string option"
  json_payload :: payload
  timeout :: nat

type_synonym endpoint = "http_request \<Rightarrow> http_result"

record llm_client =
  llm_provider :: string
  llm_base_url :: string
  llm_model :: string
  llm_api_key :: string
  available :: bool

definition LLMClient :: "config \<Rightarrow> llm_client" where
  "LLMClient cfg =
     \<lparr>llm_provider = LLM_PROVIDER cfg, llm_base_url = LLM_BASE_URL cfg,
      llm_model = LLM_MODEL cfg, llm_api_key = LLM_API_KEY cfg, available = True\<rparr>"

definition py_lines :: "string list \<Rightarrow> string" where
  \<comment> \<open>the lines of a triple-quoted text, each closed by a newline\<close>
  "py_lines ls = concat (map (\<lambda>l. l @ [CHR 0x0A]) ls)"

definition system_message :: string where
  "system_message =
     ''You are a professional data analyst. '' @
     ''Provide clear, accurate insights based only on the data provided. '' @
     ''Never hallucinate or make up information.''"

definition build_request :: "llm_client \<Rightarrow> string \<Rightarrow> nat \<Rightarrow> rat \<Rightarrow> http_request" where
  "build_request client prompt max_tokens temperature =
     (if llm_provider client = ''ollama'' then
        \<lparr>url = llm_base_url client, authorization = None,
         json_payload = Generate (llm_model client) prompt False, timeout = 180\<rparr>
      else
        \<lparr>url = llm_base_url client @ ''/chat/completions'',
         authorization = Some (''Bearer '' @ llm_api_key client),
         json_payload = Chat_completions (llm_model client)
            [(''system'', system_message), (''user'', prompt)] max_tokens temperature,
         timeout = 60\<rparr>)"

text \<open>
  What each branch of \<open>_make_request\<close> reads in a decoded body. The local one is
  \<open>response.json().get("response", "").strip()\<close>: only a \<open>dict\<close> has \<open>get\<close> and only a
  \<open>str\<close> has \<open>strip\<close>. The hosted one is \<open>result['choices'][0]['message']['content']\<close>,
  returned as it is found, whatever kind of value it is.
\<close>

definition ollama_text :: "json \<Rightarrow> py_error + json" where
  "ollama_text result =
     (case result of
        JObject kvs \<Rightarrow>
          (case (case dict_lookup kvs ''response'' of None \<Rightarrow> JString [] | Some x \<Rightarrow> x) of
             JString t \<Rightarrow> Inr (JString (py_strip t))
           | other \<Rightarrow> Inl AttributeError)
      | other \<Rightarrow> Inl AttributeError)"

definition hosted_content :: "json \<Rightarrow> py_error + json" where
  "hosted_content result =
     and_then (and_then (and_then (getitem_key result ''choices'') getitem_0)
       (\<lambda>choice. getitem_key choice ''message'')) (\<lambda>message. getitem_key message ''content'')"

text \<open>
  The body of the \<open>try\<close> of \<open>_make_request\<close>, with every exception it can meet. Its value
  is a Python value, \<open>JNull\<close> being \<open>None\<close>. The method itself catches every exception and
  returns \<open>None\<close>.
\<close>

definition request_attempt ::
  "llm_client \<Rightarrow> endpoint \<Rightarrow> string \<Rightarrow> nat \<Rightarrow> rat \<Rightarrow> py_error + json" where
  "request_attempt client post prompt max_tokens temperature =
     (case post (build_request client prompt max_tokens temperature) of
        Request_failed \<Rightarrow> Inl OSError
      | Response status_code body \<Rightarrow>
          if llm_provider client = ''ollama'' then
            (if status_code = 200 then
               (case body of Unparsable \<Rightarrow> Inl ValueError | Parsed result \<Rightarrow> ollama_text result)
             else Inr JNull)
          else
            (if status_code = 200 then
               (case body of Unparsable \<Rightarrow> Inl ValueError | Parsed result \<Rightarrow> hosted_content result)
             else Inr JNull))"

definition make_request ::
  "llm_client \<Rightarrow> endpoint \<Rightarrow> string \<Rightarrow> nat \<Rightarrow> rat \<Rightarrow> py_error + json" where
  "make_request client post prompt max_tokens temperature =
     (case request_attempt client post prompt max_tokens temperature of
        Inl e \<Rightarrow> Inr JNull
      | Inr response \<Rightarrow> Inr response)"

definition fallback_insights :: string where
  "fallback_insights =
     py_lines
       [[],
        ''**Insights (Basic Analysis):**'',
        [],
        ''The LLM service is currently unavailable. Here are basic observations:'',
        [],
        ''1. The dataset has been successfully loaded and cleaned'',
        ''2. Statistical analysis has been performed on all numeric columns'',
        ''3. Visualizations have been generated for key variables'',
        ''4. Please review the charts and statistics for detailed information'']"

definition insights_prompt :: "string \<Rightarrow> string \<Rightarrow> string" where
  "insights_prompt context data_summary =
     py_lines
       [[],
        ''STRICT RULES:'',
        ''- Use only the provided dataset information'',
        ''- Do not invent numbers or facts'',
        ''- If information is missing, say '' @ [CHR 0x22] @ ''Not enough data'' @ [CHR 0x22],
        ''- Keep responses concise'',
        [],
        ''You are analyzing a dataset. Based on the following information, provide clear insights.'',
        [],
        ''DATASET CONTEXT:'',
        context,
        [],
        ''DATA SUMMARY:'',
        data_summary,
        [],
        ''Please provide:'',
        ''1. Key observations (3-5 points)'',
        ''2. Interesting patterns or trends'',
        ''3. Potential data quality issues'',
        ''4. Suggestions for further analysis'',
        [],
        ''Keep your response clear, concise, and based ONLY on the provided data.'',
        ''Do not make assumptions beyond what the data shows.'']"

text \<open>
  \<open>generate_insights\<close> has no handler of its own: an exception of \<open>_make_request\<close> would
  pass through it. \<open>response if response else ...\<close> takes the fallback for every value
  that Python counts as false and returns every other value unchanged.
\<close>

definition generate_insights :: "llm_client \<Rightarrow> endpoint \<Rightarrow> string \<Rightarrow> string \<Rightarrow> py_error + json" where
  "generate_insights client post context data_summary =
     (if \<not> available client then Inr (JString fallback_insights)
      else
        (case make_request client post (insights_prompt context data_summary) 800 (7 / 10) of
           Inl e \<Rightarrow> Inl e
         | Inr response \<Rightarrow>
             Inr (if truthy response then response else JString fallback_insights)))"



section \<open>Orchestrator (core/agent.py)\<close>

text \<open>
  \<open>Agent.__init__\<close> reads the session; subscripting the \<open>None\<close> of an unknown session
  raises.
\<close>

record agent =
  agent_session_id :: string
  agent_llm :: llm_client
  agent_filename :: string
  agent_filepath :: string

definition Agent :: "config \<Rightarrow> database \<Rightarrow> string \<Rightarrow> py_error + agent" where
  "Agent cfg db sid =
     (case get_session sid db of
        None \<Rightarrow> Inl TypeError
      | Some session_info \<Rightarrow>
          Inr \<lparr>agent_session_id = sid, agent_llm = LLMClient cfg,
               agent_filename = session_filename session_info,
               agent_filepath = session_filepath session_info\<rparr>)"

text \<open>
  What a run meets outside the orchestrator: the readers of pandas, the endpoint, the JSON
  encoder on the profile (with and without \<open>indent\<close>), the report composer of the absent
  \<open>core.report_generator\<close> (its constructor, its five \<open>add_*\<close> calls and \<open>get_report\<close>
  taken together, any of which may raise), the JSON encoder on the report, the text that
  \<open>str\<close> gives for a value that is not a \<open>str\<close>, the database (whether the k-th write of
  the run goes through or raises) and the clock at each write.
\<close>

record ('v, 'r) environment =
  env_readers :: "'v readers"
  env_post :: endpoint
  json_dumps_profile :: "bool \<Rightarrow> profile \<Rightarrow> py_error + string"
  report_generator :: "string \<Rightarrow> string \<Rightarrow> profile \<Rightarrow> chart_descriptor list \<Rightarrow> json \<Rightarrow> py_error + 'r"
  json_dumps_report :: "'r \<Rightarrow> py_error + string"
  py_repr :: "json \<Rightarrow> string"
  db_write_ok :: "nat \<Rightarrow> bool"
  clock :: "nat \<Rightarrow> timestamp"

text \<open>The calls a run makes on its collaborators, in order.\<close>

datatype event =
    Load_dataset
  | Request_insights
  | Compose_report
  | Save_result string
  | Update_status string

type_synonym run_outcome = "bool \<times> database \<times> event list"

definition py_str :: "(json \<Rightarrow> string) \<Rightarrow> json \<Rightarrow> string" where
  \<comment> \<open>the \<open>str(result_data)\<close> of \<open>save_analysis_result\<close>: a \<open>str\<close> is itself\<close>
  "py_str repr v = (case v of JString s \<Rightarrow> s | other \<Rightarrow> repr v)"

text \<open>
  Steps 6 and 7. The arguments of each \<open>save_analysis_result\<close> are evaluated just before
  the call, so the report is encoded after the first three rows are written. A write that
  raises leaves the tables as they were, and the \<open>except\<close> of \<open>run_analysis\<close> returns
  \<open>False\<close>.
\<close>

definition persist_results ::
  "('v, 'r) environment \<Rightarrow> agent \<Rightarrow> profile \<Rightarrow> json \<Rightarrow> 'r \<Rightarrow> database \<Rightarrow> event list
     \<Rightarrow> run_outcome" where
  "persist_results env a prof insights report db tr =
     (case json_dumps_profile env False prof of
        Inl e \<Rightarrow> (False, db, tr)
      | Inr profile_json \<Rightarrow>
     if \<not> db_write_ok env 0 then (False, db, tr @ [Save_result ''profile''])
     else
       (let db1 = save_analysis_result (clock env 0) (agent_session_id a) ''profile'' profile_json db;
            tr1 = tr @ [Save_result ''profile'']
        in
     if \<not> db_write_ok env 1 then (False, db1, tr1 @ [Save_result ''charts''])
     else
       (let db2 = save_analysis_result (clock env 1) (agent_session_id a) ''charts'' ''[]'' db1;
            tr2 = tr1 @ [Save_result ''charts'']
        in
     if \<not> db_write_ok env 2 then (False, db2, tr2 @ [Save_result ''insights''])
     else
       (let db3 = save_analysis_result (clock env 2) (agent_session_id a) ''insights''
                    (py_str (py_repr env) insights) db2;
            tr3 = tr2 @ [Save_result ''insights'']
        in
     case json_dumps_report env report of
        Inl e \<Rightarrow> (False, db3, tr3)
      | Inr report_json \<Rightarrow>
     if \<not> db_write_ok env 3 then (False, db3, tr3 @ [Save_result ''report''])
     else
       (let db4 = save_analysis_result (clock env 3) (agent_session_id a) ''report'' report_json db3;
            tr4 = tr3 @ [Save_result ''report'']
        in
     if \<not> db_write_ok env 4 then (False, db4, tr4 @ [Update_status ''completed''])
     else (True, update_session_status (agent_session_id a) ''completed'' db4,
           tr4 @ [Update_status ''completed'']))))))"

definition run_analysis :: "('v, 'r) environment \<Rightarrow> agent \<Rightarrow> database \<Rightarrow> run_outcome" where
  "run_analysis env a db =
     (case load_dataframe (env_readers env) (agent_filepath a) of
        None \<Rightarrow> (False, db, [Load_dataset])
      | Some df \<Rightarrow>
          if empty df then (False, db, [Load_dataset])
          else
            (let prof = build_profile df;
                 chart_list = [];
                 context = ''Dataset name: '' @ agent_filename a
             in case json_dumps_profile env True prof of
                  Inl e \<Rightarrow> (False, db, [Load_dataset])
                | Inr data_summary \<Rightarrow>
                    (case generate_insights (agent_llm a) (env_post env) context data_summary of
                       Inl e \<Rightarrow> (False, db, [Load_dataset, Request_insights])
                     | Inr insights \<Rightarrow>
                         (case report_generator env (agent_session_id a) (agent_filename a)
                                 prof chart_list insights of
                            Inl e \<Rightarrow> (False, db, [Load_dataset, Request_insights, Compose_report])
                          | Inr report \<Rightarrow>
                              persist_results env a prof insights report db
                                [Load_dataset, Request_insights, Compose_report]))))"

text \<open>
  A concrete setting for the runs evaluated below: one uploaded session, an endpoint that
  answers every request with status 500, encoders and a composer that succeed, and a
  database whose writes go through as \<open>writes\<close> says.
\<close>

definition demo_environment :: "'v readers \<Rightarrow> (nat \<Rightarrow> bool) \<Rightarrow> ('v, string) environment" where
  "demo_environment io writes =
     \<lparr>env_readers = io,
      env_post = (\<lambda>req. Response 500 Unparsable),
      json_dumps_profile = (\<lambda>indent prof. Inr ''{}''),
      report_generator = (\<lambda>sid name prof cs insights. Inr ''report''),
      json_dumps_report = (\<lambda>report. Inr report),
      py_repr = (\<lambda>v. ''<value>''),
      db_write_ok = writes,
      clock = (\<lambda>k. 100 + k)\<rparr>"

definition demo_agent :: agent where
  "demo_agent =
     \<lparr>agent_session_id = ''s1'', agent_llm = LLMClient (budget_config 6),
      agent_filename = ''sales.csv'', agent_filepath = ''uploads/s1_sales.csv''\<rparr>"

definition demo_database :: database where
  "demo_database =
     \<lparr>sessions = [\<lparr>session_pk = 1, session_id = ''s1'', session_filename = ''sales.csv'',
                   session_filepath = ''uploads/s1_sales.csv'', uploaded_at = 50,
                   status = ''uploaded''\<rparr>],
      analysis_results = []\<rparr>"

definition header_only_frame :: "nat dataframe" where
  "header_only_frame =
     \<lparr>n_rows = 0, columns = [\<lparr>col_label = ''price'', col_dtype = Number, col_cells = []\<rparr>]\<rparr>"

definition csv_reader :: "'v dataframe \<Rightarrow> 'v readers" where
  "csv_reader df = \<lparr>read_csv = (\<lambda>p. Returns df), read_excel = (\<lambda>p. Raises OSError)\<rparr>"

text \<open>The four rows a complete run appends, by key, and the statuses a run asked the store to write.\<close>

definition row_keys :: "result_row list \<Rightarrow> (string \<times> string) list" where
  "row_keys rows = map (\<lambda>r. (result_session_id r, result_type r)) rows"

definition new_rows :: "database \<Rightarrow> database \<Rightarrow> result_row list" where
  "new_rows db db' = drop (length (analysis_results db)) (analysis_results db')"

fun statuses_written :: "event list \<Rightarrow> string list" where
  "statuses_written [] = []"
| "statuses_written (Update_status st # evs) = st # statuses_written evs"
| "statuses_written (ev # evs) = statuses_written evs"

section \<open>Properties of the result store\<close>








lemma storage_step_results:
  "analysis_results (storage_step cfg secure op db) =
     analysis_results db @
       (case op of
          (now, Save_analysis_result sid rtype rdata) \<Rightarrow>
             [\<lparr>result_pk = Suc (length (analysis_results db)), result_session_id = sid,
               result_type = rtype, result_data = rdata, created_at = now\<rparr>]
        | (now, other) \<Rightarrow> [])"
proof (cases op)
  case (Pair now sop)
  then show ?thesis
    by (cases sop)
      (simp_all add: save_upload_def update_session_status_def save_analysis_result_def Let_def)
qed

lemma run_ops_prefix:
  "prefix (analysis_results db) (analysis_results (run_ops cfg secure ops db))"
proof (induction ops arbitrary: db)
  case Nil
  then show ?case by simp
next
  case (Cons op ops)
  have "prefix (analysis_results db) (analysis_results (storage_step cfg secure op db))"
    by (simp add: storage_step_results)
  also have "prefix \<dots> (analysis_results (run_ops cfg secure ops (storage_step cfg secure op db)))"
    by (rule Cons.IH)
  finally show ?case by simp
qed

lemma run_ops_length:
  "length (analysis_results (run_ops cfg secure ops db)) =
     length (analysis_results db) + length (filter is_save ops)"
proof (induction ops arbitrary: db)
  case Nil
  then show ?case by simp
next
  case (Cons op ops)
  obtain now sop where op: "op = (now, sop)" by (cases op)
  have "length (analysis_results (storage_step cfg secure op db)) =
          length (analysis_results db) + (if is_save op then 1 else 0)"
    unfolding op by (cases sop) (simp_all add: storage_step_results del: storage_step.simps)
  with Cons.IH [of "storage_step cfg secure op db"] show ?case by simp
qed

text \<open>
  C5. A call of \<open>save_analysis_result\<close> appends exactly one row (the one it was given) to
  the table and changes nothing else; and over any sequence of store operations the rows
  present before remain, unchanged and in place, as a prefix of the table, which has grown
  by one row per save.
\<close>

theorem save_analysis_result_append_only:
  "analysis_results (save_analysis_result now sid rtype rdata db) =
     analysis_results db @
       [\<lparr>result_pk = Suc (length (analysis_results db)), result_session_id = sid,
         result_type = rtype, result_data = rdata, created_at = now\<rparr>] \<and>
   sessions (save_analysis_result now sid rtype rdata db) = sessions db \<and>
   prefix (analysis_results db) (analysis_results (run_ops cfg secure ops db)) \<and>
   length (analysis_results (run_ops cfg secure ops db)) =
     length (analysis_results db) + length (filter is_save ops)"
  using run_ops_prefix [of db cfg secure ops] run_ops_length [of cfg secure ops db]
  by (simp add: save_analysis_result_def)

section \<open>Loading\<close>

lemma rsplit_dot_ext:
  "py_index (rsplit_dot filepath) (Suc 0) =
     (if CHR ''.'' \<in> set filepath
      then Inr (rev (takeWhile (\<lambda>c. c \<noteq> CHR ''.'') (rev filepath)))
      else Inl IndexError)"
  by (simp add: py_index_def rsplit_dot_def)

lemma load_dataframe_spec_reader:
  "load_dataframe io filepath =
     (if spec_unsupported_extension filepath then None
      else case spec_reader io filepath of Raises e \<Rightarrow> None | Returns df \<Rightarrow> Some df)"
  by (auto simp: load_dataframe_def rsplit_dot_ext spec_unsupported_extension_def
      spec_extension_def spec_reader_def Let_def)

text \<open>
  C9. \<open>load_dataframe\<close> yields nothing exactly when the path has an unsupported
  extension, or the file is unreadable, or it is empty; in every other case it returns the
  frame that the reader of the file's format produced.
\<close>

theorem load_dataframe_fails_iff:
  "(load_dataframe io filepath = None) =
     (spec_unreadable io filepath \<or> spec_unsupported_extension filepath \<or>
      spec_empty_file io filepath) \<and>
   (case load_dataframe io filepath of
      None \<Rightarrow> True
    | Some df \<Rightarrow> spec_reader io filepath = Returns df)"
  by (cases "spec_reader io filepath"; cases "spec_unsupported_extension filepath")
    (simp_all add: load_dataframe_spec_reader spec_unreadable_def spec_empty_file_def)

theorem load_dataframe_fails_iff_witness:
  "load_dataframe
     \<lparr>read_csv = (\<lambda>p. if p = ''up/empty.csv'' then Raises EmptyDataError
                       else Returns \<lparr>n_rows = 0, columns = [] :: nat column list\<rparr>),
      read_excel = (\<lambda>p. Raises OSError)\<rparr> ''up/empty.csv'' = None \<and>
   load_dataframe
     \<lparr>read_csv = (\<lambda>p. if p = ''up/empty.csv'' then Raises EmptyDataError
                       else Returns \<lparr>n_rows = 0, columns = [] :: nat column list\<rparr>),
      read_excel = (\<lambda>p. Raises OSError)\<rparr> ''up/Sales.CSV'' =
     Some \<lparr>n_rows = 0, columns = []\<rparr>"
  using load_dataframe_fails_iff
    [of "\<lparr>read_csv = (\<lambda>p. if p = ''up/empty.csv'' then Raises EmptyDataError
                       else Returns \<lparr>n_rows = 0, columns = [] :: nat column list\<rparr>),
      read_excel = (\<lambda>p. Raises OSError)\<rparr>" "''up/empty.csv''"]
  by (simp add: load_dataframe_def rsplit_dot_def py_index_def py_lower_def py_lower_char_def
      spec_empty_file_def spec_reader_def spec_extension_def)

section \<open>Profile\<close>

text \<open>
  The rounding to a double is a rounding to nearest: \<open>binary_exponent\<close> finds the power
  of two at or below its argument, and \<open>to_double x\<close> is within half a unit in the last
  place of \<open>x\<close>.
\<close>

lemma round_half_even_near: "\<bar>of_int (round_half_even x) - x\<bar> \<le> 1 / 2"
proof -
  define f where "f = \<lfloor>x\<rfloor>"
  define d where "d = x - of_int f"
  have fx: "of_int f \<le> x" "x < of_int f + 1"
    unfolding f_def by linarith+
  have r: "round_half_even x =
      (if d < 1 / 2 then f else if 1 / 2 < d then f + 1 else if even f then f else f + 1)"
    by (simp add: round_half_even_def Let_def f_def d_def)
  consider "d < 1 / 2" | "1 / 2 < d" | "d = 1 / 2" by linarith
  then show ?thesis
  proof cases
    case 1
    with r have "round_half_even x = f" by simp
    with 1 fx show ?thesis unfolding d_def by (simp add: abs_le_iff)
  next
    case 2
    with r have "round_half_even x = f + 1" by simp
    with 2 fx show ?thesis unfolding d_def by (simp add: abs_le_iff)
  next
    case 3
    with r have "round_half_even x = f \<or> round_half_even x = f + 1" by simp
    with 3 fx show ?thesis unfolding d_def by (auto simp: abs_le_iff)
  qed
qed

lemma pow2_pos: "0 < pow2 k"
  by (simp add: pow2_def)

lemma binary_exponent_bounds:
  assumes "0 < x"
  shows "pow2 (binary_exponent x) \<le> x \<and> x < pow2 (binary_exponent x + 1)"
proof (cases "1 \<le> x")
  case True
  then have f: "0 < \<lfloor>x\<rfloor>" by linarith
  from bitlen_bounds [OF f]
  have b: "2 ^ nat (bitlen \<lfloor>x\<rfloor> - 1) \<le> \<lfloor>x\<rfloor>" "\<lfloor>x\<rfloor> < 2 ^ nat (bitlen \<lfloor>x\<rfloor>)" by auto
  have ge1: "1 \<le> bitlen \<lfloor>x\<rfloor>" using f by (simp add: bitlen_def floorlog_def)
  have "(of_int (2 ^ nat (bitlen \<lfloor>x\<rfloor> - 1)) :: rat) \<le> of_int \<lfloor>x\<rfloor>"
    using b(1) of_int_le_iff by blast
  then have l: "(2 :: rat) ^ nat (bitlen \<lfloor>x\<rfloor> - 1) \<le> x"
    by (simp add: le_floor_iff)
  have "\<lfloor>x\<rfloor> + 1 \<le> 2 ^ nat (bitlen \<lfloor>x\<rfloor>)" using b(2) by linarith
  then have "(of_int (\<lfloor>x\<rfloor> + 1) :: rat) \<le> of_int (2 ^ nat (bitlen \<lfloor>x\<rfloor>))"
    using of_int_le_iff by blast
  moreover have "x < of_int (\<lfloor>x\<rfloor> + 1)" by linarith
  ultimately have u: "x < (2 :: rat) ^ nat (bitlen \<lfloor>x\<rfloor>)" by simp
  show ?thesis
    using True l u ge1 by (simp add: binary_exponent_def pow2_def)
next
  case False
  then have x1: "x < 1" by simp
  define y where "y = 1 / x"
  have y1: "1 < y" using assms x1 by (simp add: y_def)
  define m where "m = \<lceil>y\<rceil> - 1"
  have m1: "0 < m" using y1 unfolding m_def by linarith
  define b where "b = bitlen m"
  from bitlen_bounds [OF m1]
  have bb: "2 ^ nat (b - 1) \<le> m" "m < 2 ^ nat b" unfolding b_def by auto
  have b1: "1 \<le> b" using m1 by (simp add: b_def bitlen_def floorlog_def)
  have "\<lceil>y\<rceil> \<le> 2 ^ nat b" using bb(2) unfolding m_def by linarith
  then have "y \<le> of_int (2 ^ nat b)" using ceiling_le_iff by blast
  then have yu: "y \<le> 2 ^ nat b" by simp
  have "2 ^ nat (b - 1) < \<lceil>y\<rceil>" using bb(1) unfolding m_def by linarith
  then have "of_int (2 ^ nat (b - 1)) < y" using less_ceiling_iff by blast
  then have yl: "2 ^ nat (b - 1) < y" by simp
  have lo: "1 / 2 ^ nat b \<le> x"
    using yu assms unfolding y_def by (simp add: field_simps)
  have hi: "x < 1 / 2 ^ nat (b - 1)"
    using yl assms unfolding y_def by (simp add: field_simps)
  have e: "binary_exponent x = - b"
    using False by (simp add: binary_exponent_def b_def m_def y_def)
  have p1: "pow2 (- b) = 1 / 2 ^ nat b"
    using b1 by (simp add: pow2_def)
  have p2: "pow2 (- b + 1) = 1 / 2 ^ nat (b - 1)"
  proof (cases "b = 1")
    case True
    then show ?thesis by (simp add: pow2_def)
  next
    case False
    with b1 have "\<not> 0 \<le> - b + 1" by linarith
    moreover have "nat (- (- b + 1)) = nat (b - 1)" by simp
    ultimately show ?thesis by (simp add: pow2_def)
  qed
  show ?thesis unfolding e p1 p2 using lo hi by simp
qed

lemma to_double_nearest:
  assumes "x \<noteq> 0"
  shows "\<bar>to_double x - x\<bar> \<le> pow2 (max (binary_exponent \<bar>x\<bar>) (- 1022) - 52) / 2"
proof -
  define u where "u = pow2 (max (binary_exponent \<bar>x\<bar>) (- 1022) - 52)"
  have u: "0 < u" unfolding u_def by (rule pow2_pos)
  define n where "n = round_half_even (\<bar>x\<bar> / u)"
  have t: "to_double x = sgn x * of_int n * u"
    using assms by (simp add: to_double_def Let_def u_def n_def)
  have "\<bar>of_int n - \<bar>x\<bar> / u\<bar> \<le> 1 / 2"
    unfolding n_def by (rule round_half_even_near)
  then have "\<bar>of_int n - \<bar>x\<bar> / u\<bar> * u \<le> 1 / 2 * u"
    using u by (simp add: mult_right_mono)
  moreover have "(of_int n - \<bar>x\<bar> / u) * u = of_int n * u - \<bar>x\<bar>"
    using u by (simp add: field_simps)
  then have "\<bar>of_int n - \<bar>x\<bar> / u\<bar> * u = \<bar>of_int n * u - \<bar>x\<bar>\<bar>"
    using u by (metis abs_mult abs_of_pos)
  ultimately have a: "\<bar>of_int n * u - \<bar>x\<bar>\<bar> \<le> u / 2" by simp
  have "\<bar>to_double x - x\<bar> = \<bar>of_int n * u - \<bar>x\<bar>\<bar>"
  proof (cases "0 < x")
    case True
    then show ?thesis unfolding t by simp
  next
    case False
    with assms have neg: "x < 0" by simp
    then have "to_double x - x = - (of_int n * u - \<bar>x\<bar>)"
      unfolding t by simp
    then show ?thesis by (simp only: abs_minus_cancel)
  qed
  with a show ?thesis unfolding u_def by simp
qed

lemma sum_isnull_concat:
  "sum_list (map isnull_sum cs) = length (filter (\<lambda>x. x = None) (concat (map col_cells cs)))"
  by (induction cs) (simp_all add: isnull_sum_def)

lemma nulls_frame_cells:
  "k \<le> n \<Longrightarrow> spec_missing_cells (nulls_frame k n) = k \<and> spec_total_cells (nulls_frame k n) = n * 2"
  by (simp add: spec_missing_cells_def spec_total_cells_def nulls_frame_def)

lemma spec_score_67_160: "spec_score 67 160 = 8181070198095217 / 2 ^ 47"
  by code_simp

lemma spec_score_73_160: "spec_score 73 160 = 7651897241879183 / 2 ^ 47"
  by code_simp

lemma spec_score_10_500: "spec_score 10 500 = 98"
  by code_simp

lemma double_5813: "\<bar>8181070198095217 / 2 ^ 47 - 5813 / 100\<bar> < (1 / 10 ^ 14 :: rat)"
  by simp

lemma double_5437: "\<bar>7651897241879183 / 2 ^ 47 - 5437 / 100\<bar> < (1 / 10 ^ 14 :: rat)"
  by simp

text \<open>
  C1. The completeness score of the profile is \<open>round((1 - missing / total) * 100, 2)\<close>,
  computed as Python computes it on floats, when the dataset has
  \<open>total = rows * columns > 0\<close> cells, \<open>missing\<close> being the number of null cells of the
  whole dataset, and it is 0 when the dataset has no cell. (Inside \<open>run_analysis\<close> a
  dataset with no cell is \<open>df.empty\<close> and stops the run before the profile is built, so
  only the first case is reached there.) On 67 null cells of 160 the score is the double
  that prints as 58.13, on 73 of 160 the one that prints as 54.37, and on 10 of 500 it is
  98.
\<close>

theorem completeness_score_formula:
  "completeness_score (build_profile df) =
     (if spec_total_cells df > 0
      then spec_score (spec_missing_cells df) (spec_total_cells df)
      else 0) \<and>
   completeness_score (build_profile (nulls_frame 67 80)) = 8181070198095217 / 2 ^ 47 \<and>
   \<bar>completeness_score (build_profile (nulls_frame 67 80)) - 5813 / 100\<bar> < 1 / 10 ^ 14 \<and>
   completeness_score (build_profile (nulls_frame 73 80)) = 7651897241879183 / 2 ^ 47 \<and>
   \<bar>completeness_score (build_profile (nulls_frame 73 80)) - 5437 / 100\<bar> < 1 / 10 ^ 14 \<and>
   completeness_score (build_profile (nulls_frame 10 250)) = 98"
proof -
  have formula: "completeness_score (build_profile d) =
     (if spec_total_cells d > 0
      then spec_score (spec_missing_cells d) (spec_total_cells d)
      else 0)" for d :: "'b dataframe"
    by (simp add: build_profile_def shape_def spec_total_cells_def spec_missing_cells_def
        spec_score_def sum_isnull_concat Let_def)
  have a: "completeness_score (build_profile (nulls_frame 67 80)) = 8181070198095217 / 2 ^ 47"
    using nulls_frame_cells [of 67 80] by (simp add: formula spec_score_67_160)
  have b: "completeness_score (build_profile (nulls_frame 73 80)) = 7651897241879183 / 2 ^ 47"
    using nulls_frame_cells [of 73 80] by (simp add: formula spec_score_73_160)
  have c: "completeness_score (build_profile (nulls_frame 10 250)) = 98"
    using nulls_frame_cells [of 10 250] by (simp add: formula spec_score_10_500)
  show ?thesis
    unfolding a b c using formula [of df] double_5813 double_5437 by simp
qed

lemma empty_iff_no_cells: "empty df \<longleftrightarrow> spec_total_cells df = 0"
  by (simp add: empty_def spec_total_cells_def)

lemma well_formed_cells:
  "well_formed df \<Longrightarrow> length (concat (map col_cells (columns df))) = spec_total_cells df"
proof -
  have "list_all (\<lambda>c. length (col_cells c) = n) cs
          \<Longrightarrow> length (concat (map col_cells cs)) = n * length cs" for n and cs :: "'a column list"
    by (induction cs) simp_all
  then show "well_formed df \<Longrightarrow> ?thesis"
    by (simp add: well_formed_def spec_total_cells_def)
qed

lemma well_formed_missing_le_total:
  "well_formed df \<Longrightarrow> spec_missing_cells df \<le> spec_total_cells df"
  using well_formed_cells [of df] length_filter_le [of "\<lambda>x. x = None" "concat (map col_cells (columns df))"]
  by (simp add: spec_missing_cells_def)

section \<open>Chart budget\<close>

lemma histogram_loop_budget:
  "within_budget cfg s \<Longrightarrow> within_budget cfg (histogram_loop cfg renders an cols s)"
  by (induction cols arbitrary: s) (auto simp: within_budget_def create_histogram_def)

lemma bar_chart_loop_budget:
  "within_budget cfg s \<Longrightarrow> within_budget cfg (bar_chart_loop cfg renders an cols s)"
  by (induction cols arbitrary: s) (auto simp: within_budget_def create_bar_chart_def)

lemma heatmap_step_budget:
  "within_budget cfg s \<Longrightarrow> within_budget cfg (heatmap_step cfg renders an cols s)"
  by (auto simp: within_budget_def heatmap_step_def create_correlation_heatmap_def)

lemma boxplot_step_budget:
  "within_budget cfg s \<Longrightarrow> within_budget cfg (boxplot_step cfg renders an cols s)"
  by (auto simp: within_budget_def boxplot_step_def create_boxplot_def)

lemma analyze_state_budget: "within_budget cfg (analyze_state cfg renders an)"
proof -
  have "within_budget cfg \<lparr>chart_count = 0, charts = []\<rparr>"
    by (simp add: within_budget_def)
  then show ?thesis
    unfolding analyze_state_def Let_def
    by (intro boxplot_step_budget heatmap_step_budget bar_chart_loop_budget histogram_loop_budget)
qed

text \<open>
  C2. Whatever the dataset, the budget and the outcome of each render, one run of
  \<open>analyze\<close> returns at most \<open>MAX_CHARTS\<close> charts.
\<close>

theorem analyze_at_most_max_charts:
  "length (analyze cfg renders an) \<le> MAX_CHARTS cfg"
  using analyze_state_budget [of cfg renders an]
  by (simp add: analyze_def within_budget_def)

section \<open>The budget counter counts attempts\<close>

lemma histogram_loop_count:
  "chart_count (histogram_loop cfg r an cols s) =
     (if chart_count s \<ge> MAX_CHARTS cfg then chart_count s
      else min (chart_count s + length cols) (MAX_CHARTS cfg))"
  by (induction cols arbitrary: s) auto

lemma bar_chart_loop_count:
  "chart_count (bar_chart_loop cfg r an cols s) =
     (if chart_count s \<ge> MAX_CHARTS cfg then chart_count s
      else min (chart_count s + length (filter (\<lambda>c. nunique c \<le> 15) cols)) (MAX_CHARTS cfg))"
  by (induction cols arbitrary: s) auto

lemma histogram_loop_all_fail:
  "charts (histogram_loop cfg (\<lambda>k cs. False) an cols s) = charts s"
  by (induction cols arbitrary: s) (auto simp: create_histogram_def)

lemma bar_chart_loop_all_fail:
  "charts (bar_chart_loop cfg (\<lambda>k cs. False) an cols s) = charts s"
  by (induction cols arbitrary: s) (auto simp: create_bar_chart_def)

lemma histogram_loop_count_indep:
  "chart_count s = chart_count s'
    \<Longrightarrow> chart_count (histogram_loop cfg r an cols s) = chart_count (histogram_loop cfg r' an cols s')"
  by (simp add: histogram_loop_count)

lemma bar_chart_loop_count_indep:
  "chart_count s = chart_count s'
    \<Longrightarrow> chart_count (bar_chart_loop cfg r an cols s) = chart_count (bar_chart_loop cfg r' an cols s')"
  by (simp add: bar_chart_loop_count)

lemma heatmap_step_count_indep:
  "chart_count s = chart_count s'
    \<Longrightarrow> chart_count (heatmap_step cfg r an cols s) = chart_count (heatmap_step cfg r' an cols s')"
  by (simp add: heatmap_step_def)

lemma boxplot_step_count_indep:
  "chart_count s = chart_count s'
    \<Longrightarrow> chart_count (boxplot_step cfg r an cols s) = chart_count (boxplot_step cfg r' an cols s')"
  by (simp add: boxplot_step_def)

lemma analyze_state_count_indep:
  "chart_count (analyze_state cfg r an) = chart_count (analyze_state cfg r' an)"
  unfolding analyze_state_def Let_def
  by (intro boxplot_step_count_indep heatmap_step_count_indep bar_chart_loop_count_indep
      histogram_loop_count_indep) simp

lemma failed_histograms_run:
  "analyze_state (budget_config 2) (\<lambda>k cs. k \<noteq> Histogram)
     (DataAnalyzer (budget_config 2) two_numeric_frame ''s1'') = \<lparr>chart_count = 2, charts = []\<rparr>"
  by (simp add: analyze_state_def budget_config_def two_numeric_frame_def DataAnalyzer_def
      select_dtypes_number_def select_dtypes_object_def heatmap_step_def boxplot_step_def
      create_histogram_def)

lemma failed_bar_chart_run:
  "analyze_state (budget_config 3) (\<lambda>k cs. k \<noteq> Bar_chart)
     (DataAnalyzer (budget_config 3) sales_frame ''s1'') =
   \<lparr>chart_count = 3,
    charts = [histogram_descriptor ''uploads/charts/s1'' ''price'',
              histogram_descriptor ''uploads/charts/s1'' ''qty'']\<rparr>"
  by (simp add: analyze_state_def budget_config_def sales_frame_def DataAnalyzer_def
      select_dtypes_number_def select_dtypes_object_def heatmap_step_def boxplot_step_def
      create_histogram_def create_bar_chart_def nunique_def path_join_def)

text \<open>
  C10. In both loops the counter goes up by one for each render attempted, whether the
  render succeeds or not: after the histogram loop it has grown by the number of columns
  the loop went through, after the bar-chart loop by the number of columns of at most 15
  distinct values it went through, each time up to the budget, and this for every outcome
  of the renders; when every render fails the loops add no descriptor and the counter
  grows all the same. So the counter of a whole run is the one of the run in which every
  render succeeds, and a failed render uses up a slot. With a budget of 2 and two numeric
  columns whose histograms both fail, the run ends with the counter at 2 and no
  descriptor; with a budget of 3, two numeric columns and one text column whose bar chart
  fails, it ends with the counter at 3 and the two histograms. In both runs the heatmap
  and the box plot are eligible and able to render, and are skipped although the list
  holds fewer than \<open>MAX_CHARTS\<close> charts.
\<close>

theorem failed_render_consumes_budget:
  "chart_count (histogram_loop cfg renders an cols s) =
     (if chart_count s \<ge> MAX_CHARTS cfg then chart_count s
      else min (chart_count s + length cols) (MAX_CHARTS cfg)) \<and>
   chart_count (bar_chart_loop cfg renders an cols s) =
     (if chart_count s \<ge> MAX_CHARTS cfg then chart_count s
      else min (chart_count s + length (filter (\<lambda>c. nunique c \<le> 15) cols)) (MAX_CHARTS cfg)) \<and>
   charts (histogram_loop cfg (\<lambda>k cs. False) an cols s) = charts s \<and>
   charts (bar_chart_loop cfg (\<lambda>k cs. False) an cols s) = charts s \<and>
   chart_count (analyze_state cfg renders an) = chart_count (analyze_state cfg (\<lambda>k cs. True) an) \<and>
   length (select_dtypes_number two_numeric_frame) \<ge> 2 \<and>
   chart_count (analyze_state (budget_config 2) (\<lambda>k cs. k \<noteq> Histogram)
     (DataAnalyzer (budget_config 2) two_numeric_frame ''s1'')) = 2 \<and>
   analyze (budget_config 2) (\<lambda>k cs. k \<noteq> Histogram)
     (DataAnalyzer (budget_config 2) two_numeric_frame ''s1'') = [] \<and>
   length (analyze (budget_config 2) (\<lambda>k cs. k \<noteq> Histogram)
     (DataAnalyzer (budget_config 2) two_numeric_frame ''s1'')) < MAX_CHARTS (budget_config 2) \<and>
   length (select_dtypes_number sales_frame) \<ge> 2 \<and>
   chart_count (analyze_state (budget_config 3) (\<lambda>k cs. k \<noteq> Bar_chart)
     (DataAnalyzer (budget_config 3) sales_frame ''s1'')) = 3 \<and>
   analyze (budget_config 3) (\<lambda>k cs. k \<noteq> Bar_chart)
     (DataAnalyzer (budget_config 3) sales_frame ''s1'') =
       [histogram_descriptor ''uploads/charts/s1'' ''price'',
        histogram_descriptor ''uploads/charts/s1'' ''qty''] \<and>
   length (analyze (budget_config 3) (\<lambda>k cs. k \<noteq> Bar_chart)
     (DataAnalyzer (budget_config 3) sales_frame ''s1'')) < MAX_CHARTS (budget_config 3)"
proof -
  have general:
    "chart_count (histogram_loop cfg renders an cols s) =
       (if chart_count s \<ge> MAX_CHARTS cfg then chart_count s
        else min (chart_count s + length cols) (MAX_CHARTS cfg)) \<and>
     chart_count (bar_chart_loop cfg renders an cols s) =
       (if chart_count s \<ge> MAX_CHARTS cfg then chart_count s
        else min (chart_count s + length (filter (\<lambda>c. nunique c \<le> 15) cols)) (MAX_CHARTS cfg)) \<and>
     charts (histogram_loop cfg (\<lambda>k cs. False) an cols s) = charts s \<and>
     charts (bar_chart_loop cfg (\<lambda>k cs. False) an cols s) = charts s \<and>
     chart_count (analyze_state cfg renders an) = chart_count (analyze_state cfg (\<lambda>k cs. True) an)"
    using histogram_loop_count [of cfg renders an cols s] bar_chart_loop_count [of cfg renders an cols s]
      histogram_loop_all_fail [of cfg an cols s] bar_chart_loop_all_fail [of cfg an cols s]
      analyze_state_count_indep [of cfg renders an "\<lambda>k cs. True"]
    by blast
  have m: "MAX_CHARTS (budget_config n) = n" for n
    by (simp add: budget_config_def)
  have n1: "length (select_dtypes_number two_numeric_frame) \<ge> 2"
    by (simp add: select_dtypes_number_def two_numeric_frame_def)
  have n2: "length (select_dtypes_number sales_frame) \<ge> 2"
    by (simp add: select_dtypes_number_def sales_frame_def)
  have first: "length (select_dtypes_number two_numeric_frame) \<ge> 2 \<and>
     chart_count (analyze_state (budget_config 2) (\<lambda>k cs. k \<noteq> Histogram)
       (DataAnalyzer (budget_config 2) two_numeric_frame ''s1'')) = 2 \<and>
     analyze (budget_config 2) (\<lambda>k cs. k \<noteq> Histogram)
       (DataAnalyzer (budget_config 2) two_numeric_frame ''s1'') = [] \<and>
     length (analyze (budget_config 2) (\<lambda>k cs. k \<noteq> Histogram)
       (DataAnalyzer (budget_config 2) two_numeric_frame ''s1'')) < MAX_CHARTS (budget_config 2)"
    using n1 by (simp add: analyze_def failed_histograms_run m)
  have second: "length (select_dtypes_number sales_frame) \<ge> 2 \<and>
     chart_count (analyze_state (budget_config 3) (\<lambda>k cs. k \<noteq> Bar_chart)
       (DataAnalyzer (budget_config 3) sales_frame ''s1'')) = 3 \<and>
     analyze (budget_config 3) (\<lambda>k cs. k \<noteq> Bar_chart)
       (DataAnalyzer (budget_config 3) sales_frame ''s1'') =
         [histogram_descriptor ''uploads/charts/s1'' ''price'',
          histogram_descriptor ''uploads/charts/s1'' ''qty''] \<and>
     length (analyze (budget_config 3) (\<lambda>k cs. k \<noteq> Bar_chart)
       (DataAnalyzer (budget_config 3) sales_frame ''s1'')) < MAX_CHARTS (budget_config 3)"
    using n2 by (simp add: analyze_def failed_bar_chart_run m)
  from general first second show ?thesis by blast
qed

section \<open>Bar charts\<close>

lemma bar_chart_descriptor_inj:
  "bar_chart_descriptor dir a = bar_chart_descriptor dir b \<longleftrightarrow> a = b"
  by (auto simp: bar_chart_descriptor_def)

lemma histogram_loop_no_bar:
  "bar_chart_descriptor dir l \<in> set (charts (histogram_loop cfg r an cols s)) \<longleftrightarrow>
   bar_chart_descriptor dir l \<in> set (charts s)"
  by (induction cols arbitrary: s)
    (auto simp: create_histogram_def bar_chart_descriptor_def histogram_descriptor_def)

lemma heatmap_step_no_bar:
  "bar_chart_descriptor dir l \<in> set (charts (heatmap_step cfg r an cols s)) \<longleftrightarrow>
   bar_chart_descriptor dir l \<in> set (charts s)"
  by (auto simp: heatmap_step_def create_correlation_heatmap_def bar_chart_descriptor_def
      heatmap_descriptor_def)

lemma boxplot_step_no_bar:
  "bar_chart_descriptor dir l \<in> set (charts (boxplot_step cfg r an cols s)) \<longleftrightarrow>
   bar_chart_descriptor dir l \<in> set (charts s)"
  by (auto simp: boxplot_step_def create_boxplot_def bar_chart_descriptor_def
      boxplot_descriptor_def)

lemma bar_chart_loop_other_label:
  "l \<notin> set (map col_label cols) \<Longrightarrow>
   bar_chart_descriptor (charts_dir an) l \<in> set (charts (bar_chart_loop cfg r an cols s)) \<longleftrightarrow>
   bar_chart_descriptor (charts_dir an) l \<in> set (charts s)"
  by (induction cols arbitrary: s)
    (auto simp: create_bar_chart_def bar_chart_descriptor_inj)

lemma bar_chart_loop_char:
  "distinct (map col_label cols) \<Longrightarrow> c \<in> set cols \<Longrightarrow>
   bar_chart_descriptor (charts_dir an) (col_label c) \<notin> set (charts s) \<Longrightarrow>
   bar_chart_descriptor (charts_dir an) (col_label c) \<in> set (charts (bar_chart_loop cfg r an cols s)) \<longleftrightarrow>
     nunique c \<le> 15 \<and> r Bar_chart [col_label c] \<and>
     chart_count s + length (filter (\<lambda>x. nunique x \<le> 15) (takeWhile (\<lambda>x. x \<noteq> c) cols))
       < MAX_CHARTS cfg"
proof (induction cols arbitrary: s)
  case Nil
  then show ?case by simp
next
  case (Cons col cols)
  show ?case
  proof (cases "c = col")
    case True
    then have "col_label c \<notin> set (map col_label cols)"
      using Cons.prems(1) by simp
    then show ?thesis
      using True Cons.prems(3)
      by (simp add: bar_chart_loop_other_label create_bar_chart_def)
  next
    case False
    then have c: "c \<in> set cols" and l: "col_label col \<noteq> col_label c"
      using Cons.prems(1,2) by auto
    have d: "distinct (map col_label cols)"
      using Cons.prems(1) by simp
    show ?thesis
      using False l Cons.prems(3)
        Cons.IH [OF d c, of "\<lparr>chart_count = chart_count s + 1,
           charts = create_bar_chart r an (col_label col) (charts s)\<rparr>"]
        Cons.IH [OF d c, of s]
      by (auto simp: create_bar_chart_def bar_chart_descriptor_inj)
  qed
qed

lemma distinct_label_eq:
  "distinct (map col_label cs) \<Longrightarrow> a \<in> set cs \<Longrightarrow> b \<in> set cs
     \<Longrightarrow> col_label a = col_label b \<Longrightarrow> a = b"
  by (meson distinct_map inj_onD)

text \<open>
  C3, as the code has it. In a dataset whose column labels are distinct, a column receives
  a bar chart exactly when it is one of the first two columns of dtype \<open>object\<close>, it has
  at most 15 distinct values, the budget is not used up when the loop reaches it, and its
  render succeeds. So a column with more than 15 distinct values never receives one, no
  later column takes the place of a skipped one, and a non-numeric column of another dtype
  (boolean, datetime) never receives one.
\<close>

theorem bar_chart_iff:
  assumes dist: "distinct (map col_label (columns (analyzer_df an)))"
    and c: "c \<in> set (columns (analyzer_df an))"
  shows "receives_bar_chart an c (analyze cfg renders an) \<longleftrightarrow>
     c \<in> set (bar_chart_candidates an) \<and> nunique c \<le> 15 \<and> renders Bar_chart [col_label c] \<and>
     budget_left_at cfg an c"
proof -
  let ?num = "select_dtypes_number (analyzer_df an)"
  let ?cats = "bar_chart_candidates an"
  let ?s1 = "histogram_loop cfg renders an (take 3 ?num) \<lparr>chart_count = 0, charts = []\<rparr>"
  let ?D = "bar_chart_descriptor (charts_dir an) (col_label c)"
  have sub: "set ?cats \<subseteq> set (columns (analyzer_df an))"
    unfolding bar_chart_candidates_def select_dtypes_object_def
    by (meson filter_is_subset order_trans set_take_subset)
  have dcats: "distinct (map col_label ?cats)"
    unfolding bar_chart_candidates_def select_dtypes_object_def
    using dist by (simp add: distinct_map_filter take_map[symmetric] distinct_take)
  have s1: "?D \<notin> set (charts ?s1)"
    by (simp add: histogram_loop_no_bar)
  have cnt: "chart_count ?s1 = min (length (take 3 ?num)) (MAX_CHARTS cfg)"
    by (simp add: histogram_loop_count)
  have final: "receives_bar_chart an c (analyze cfg renders an) \<longleftrightarrow>
      ?D \<in> set (charts (bar_chart_loop cfg renders an ?cats ?s1))"
    by (simp add: receives_bar_chart_def analyze_def analyze_state_def Let_def
        boxplot_step_no_bar heatmap_step_no_bar bar_chart_candidates_def)
  show ?thesis
  proof (cases "c \<in> set ?cats")
    case True
    show ?thesis
      unfolding final bar_chart_loop_char [OF dcats True s1] cnt budget_left_at_def
      using True by auto
  next
    case False
    have "col_label c \<notin> set (map col_label ?cats)"
    proof
      assume "col_label c \<in> set (map col_label ?cats)"
      then obtain x where x: "x \<in> set ?cats" "col_label x = col_label c" by auto
      with sub have "x \<in> set (columns (analyzer_df an))" by auto
      with distinct_label_eq [OF dist this c] x have "x = c" by simp
      with x False show False by simp
    qed
    then show ?thesis
      unfolding final using False s1 by (simp add: bar_chart_loop_other_label)
  qed
qed

theorem bar_chart_iff_witness:
  "distinct (map col_label (columns (analyzer_df (DataAnalyzer (budget_config 6) city_frame ''s1'')))) \<and>
   city_column \<in> set (columns (analyzer_df (DataAnalyzer (budget_config 6) city_frame ''s1''))) \<and>
   receives_bar_chart (DataAnalyzer (budget_config 6) city_frame ''s1'') city_column
     (analyze (budget_config 6) (\<lambda>k cs. True) (DataAnalyzer (budget_config 6) city_frame ''s1''))"
proof -
  have d: "distinct (map col_label (columns (analyzer_df (DataAnalyzer (budget_config 6) city_frame ''s1''))))"
    by (simp add: DataAnalyzer_def city_frame_def city_column_def)
  have c: "city_column \<in> set (columns (analyzer_df (DataAnalyzer (budget_config 6) city_frame ''s1'')))"
    by (simp add: DataAnalyzer_def city_frame_def)
  have "receives_bar_chart (DataAnalyzer (budget_config 6) city_frame ''s1'') city_column
     (analyze (budget_config 6) (\<lambda>k cs. True) (DataAnalyzer (budget_config 6) city_frame ''s1''))"
    unfolding bar_chart_iff [OF d c]
    by (simp add: DataAnalyzer_def city_frame_def city_column_def bar_chart_candidates_def
        select_dtypes_object_def select_dtypes_number_def budget_left_at_def budget_config_def
        nunique_def)
  with d c show ?thesis by simp
qed

text \<open>
  C3 as the specification words it fails on a boolean column: it is non-numeric
  (the profiler lists it as categorical), it is among the first two such columns, it has
  two distinct values, the budget of 6 is untouched and every render succeeds, yet the run
  produces no chart for it.
\<close>

theorem categorical_bar_chart_counterexample:
  "col_dtype active_column \<noteq> Number \<and>
   active_column \<in> set (take 2 (select_dtypes_exclude_number flag_frame)) \<and>
   nunique active_column \<le> 15 \<and>
   MAX_CHARTS (budget_config 6) = 6 \<and>
   analyze (budget_config 6) (\<lambda>k cs. True) (DataAnalyzer (budget_config 6) flag_frame ''s1'') = [] \<and>
   \<not> receives_bar_chart (DataAnalyzer (budget_config 6) flag_frame ''s1'') active_column
        (analyze (budget_config 6) (\<lambda>k cs. True) (DataAnalyzer (budget_config 6) flag_frame ''s1''))"
proof -
  have "analyze (budget_config 6) (\<lambda>k cs. True) (DataAnalyzer (budget_config 6) flag_frame ''s1'') = []"
    by (simp add: analyze_def analyze_state_def budget_config_def flag_frame_def active_column_def
        DataAnalyzer_def select_dtypes_number_def select_dtypes_object_def heatmap_step_def
        boxplot_step_def)
  then show ?thesis
    by (simp add: receives_bar_chart_def select_dtypes_exclude_number_def flag_frame_def
        active_column_def nunique_def budget_config_def)
qed

section \<open>Insight client\<close>


lemma truthy_text [simp]: "truthy (JString s) \<longleftrightarrow> s \<noteq> []"
  by (simp add: truthy_def)

lemma truthy_none [simp]: "\<not> truthy JNull"
  by (simp add: truthy_def)









section \<open>Orchestrator\<close>

lemma statuses_written_append:
  "statuses_written (xs @ ys) = statuses_written xs @ statuses_written ys"
  by (induction xs rule: statuses_written.induct) simp_all

lemma sessions_save [simp]:
  "sessions (save_analysis_result now sid rtype rdata db) = sessions db"
  by (simp add: save_analysis_result_def)

lemma results_save [simp]:
  "analysis_results (save_analysis_result now sid rtype rdata db) =
     analysis_results db @
       [\<lparr>result_pk = Suc (length (analysis_results db)), result_session_id = sid,
         result_type = rtype, result_data = rdata, created_at = now\<rparr>]"
  by (simp add: save_analysis_result_def)

lemma results_update [simp]:
  "analysis_results (update_session_status sid st db) = analysis_results db"
  by (simp add: update_session_status_def)

lemma persist_results_status:
  assumes "statuses_written tr = []"
    and "persist_results env a prof insights report db tr = (ok, db', tr')"
  shows "sessions db' =
           (if ok then sessions (update_session_status (agent_session_id a) ''completed'' db)
            else sessions db) \<and>
         set (statuses_written tr') \<subseteq> {''completed''} \<and>
         (ok \<longrightarrow> statuses_written tr' = [''completed'']) \<and>
         (statuses_written tr' \<noteq> [] \<longrightarrow>
            row_keys (new_rows db db') =
              [(agent_session_id a, ''profile''), (agent_session_id a, ''charts''),
               (agent_session_id a, ''insights''), (agent_session_id a, ''report'')])"
  using assms
  by (auto simp: persist_results_def Let_def statuses_written_append row_keys_def new_rows_def
      update_session_status_def split: sum.splits if_splits)

lemma run_analysis_cases:
  "(\<exists>tr0. run_analysis env a db = (False, db, tr0) \<and> statuses_written tr0 = []) \<or>
   (\<exists>prof insights report.
      run_analysis env a db =
        persist_results env a prof insights report db [Load_dataset, Request_insights, Compose_report])"
  by (auto simp: run_analysis_def Let_def split: option.splits sum.splits)

text \<open>
  C8. Whatever happens in a run, the only status it asks the store to write is
  \<open>completed\<close>, and it asks for it only once the four result rows (profile, charts,
  insights, report) have been appended. After a successful run the sessions table is the
  old one with this session set to \<open>completed\<close>; after a failed run, whichever step
  failed, the sessions table is exactly what it was.
\<close>

theorem run_analysis_status:
  assumes "run_analysis env a db = (ok, db', tr)"
  shows "sessions db' =
           (if ok then sessions (update_session_status (agent_session_id a) ''completed'' db)
            else sessions db) \<and>
         set (statuses_written tr) \<subseteq> {''completed''} \<and>
         (ok \<longrightarrow> statuses_written tr = [''completed'']) \<and>
         (statuses_written tr \<noteq> [] \<longrightarrow>
            row_keys (new_rows db db') =
              [(agent_session_id a, ''profile''), (agent_session_id a, ''charts''),
               (agent_session_id a, ''insights''), (agent_session_id a, ''report'')])"
  using run_analysis_cases [of env a db]
proof (elim disjE exE conjE)
  fix tr0
  assume "run_analysis env a db = (False, db, tr0)" "statuses_written tr0 = []"
  with assms show ?thesis by simp
next
  fix prof insights report
  assume "run_analysis env a db =
    persist_results env a prof insights report db [Load_dataset, Request_insights, Compose_report]"
  with assms have
    "persist_results env a prof insights report db [Load_dataset, Request_insights, Compose_report]
       = (ok, db', tr)"
    by simp
  from persist_results_status [OF _ this] show ?thesis by simp
qed

text \<open>
  C7. When the dataset fails to load or has zero rows, the run reports failure and leaves
  the database as it found it, so no profile, charts, insights or report row is written;
  the only call it has made is the load, the insight request and the report composer are
  never reached.
\<close>

theorem empty_dataset_aborts:
  assumes "load_dataframe (env_readers env) (agent_filepath a) = None \<or>
           (\<exists>df. load_dataframe (env_readers env) (agent_filepath a) = Some df \<and> n_rows df = 0)"
  shows "run_analysis env a db = (False, db, [Load_dataset])"
  using assms by (auto simp: run_analysis_def empty_def)

theorem empty_dataset_aborts_witness:
  "(load_dataframe (env_readers (demo_environment (csv_reader header_only_frame) (\<lambda>k. True)))
       (agent_filepath demo_agent) = None \<or>
    (\<exists>df. load_dataframe (env_readers (demo_environment (csv_reader header_only_frame) (\<lambda>k. True)))
       (agent_filepath demo_agent) = Some df \<and> n_rows df = 0)) \<and>
   run_analysis (demo_environment (csv_reader header_only_frame) (\<lambda>k. True)) demo_agent demo_database =
     (False, demo_database, [Load_dataset])"
proof -
  have "load_dataframe (env_readers (demo_environment (csv_reader header_only_frame) (\<lambda>k. True)))
       (agent_filepath demo_agent) = Some header_only_frame \<and> n_rows header_only_frame = 0"
    by (simp add: demo_environment_def csv_reader_def demo_agent_def load_dataframe_def
        rsplit_dot_def py_index_def py_lower_def py_lower_char_def header_only_frame_def)
  then have h: "load_dataframe (env_readers (demo_environment (csv_reader header_only_frame) (\<lambda>k. True)))
       (agent_filepath demo_agent) = None \<or>
    (\<exists>df. load_dataframe (env_readers (demo_environment (csv_reader header_only_frame) (\<lambda>k. True)))
       (agent_filepath demo_agent) = Some df \<and> n_rows df = 0)"
    by blast
  from h empty_dataset_aborts [OF h, of demo_database] show ?thesis by blast
qed

lemma demo_load:
  "load_dataframe (env_readers (demo_environment (csv_reader df) w)) (agent_filepath demo_agent) = Some df"
  by (simp add: demo_environment_def csv_reader_def demo_agent_def load_dataframe_def
        rsplit_dot_def py_index_def py_lower_def py_lower_char_def)

lemma demo_insights:
  "generate_insights (agent_llm demo_agent) (env_post (demo_environment io w)) c d =
     Inr (JString fallback_insights)"
  by (simp add: generate_insights_def make_request_def request_attempt_def demo_agent_def
      demo_environment_def LLMClient_def truthy_def)

lemma demo_run_complete:
  "run_analysis (demo_environment (csv_reader city_frame) (\<lambda>k. True)) demo_agent demo_database =
     (True,
      \<lparr>sessions = [\<lparr>session_pk = 1, session_id = ''s1'', session_filename = ''sales.csv'',
                   session_filepath = ''uploads/s1_sales.csv'', uploaded_at = 50,
                   status = ''completed''\<rparr>],
       analysis_results =
         [\<lparr>result_pk = 1, result_session_id = ''s1'', result_type = ''profile'',
            result_data = ''{}'', created_at = 100\<rparr>,
          \<lparr>result_pk = 2, result_session_id = ''s1'', result_type = ''charts'',
            result_data = ''[]'', created_at = 101\<rparr>,
          \<lparr>result_pk = 3, result_session_id = ''s1'', result_type = ''insights'',
            result_data = fallback_insights, created_at = 102\<rparr>,
          \<lparr>result_pk = 4, result_session_id = ''s1'', result_type = ''report'',
            result_data = ''report'', created_at = 103\<rparr>]\<rparr>,
      [Load_dataset, Request_insights, Compose_report, Save_result ''profile'',
       Save_result ''charts'', Save_result ''insights'', Save_result ''report'',
       Update_status ''completed''])"
  unfolding run_analysis_def demo_load demo_insights
  by (simp add: persist_results_def demo_environment_def demo_database_def empty_def city_frame_def
      save_analysis_result_def update_session_status_def demo_agent_def py_str_def Let_def)

lemma demo_run_failed_write:
  "run_analysis (demo_environment (csv_reader city_frame) (\<lambda>k. k \<noteq> 3)) demo_agent demo_database =
     (False,
      \<lparr>sessions = [\<lparr>session_pk = 1, session_id = ''s1'', session_filename = ''sales.csv'',
                   session_filepath = ''uploads/s1_sales.csv'', uploaded_at = 50,
                   status = ''uploaded''\<rparr>],
       analysis_results =
         [\<lparr>result_pk = 1, result_session_id = ''s1'', result_type = ''profile'',
            result_data = ''{}'', created_at = 100\<rparr>,
          \<lparr>result_pk = 2, result_session_id = ''s1'', result_type = ''charts'',
            result_data = ''[]'', created_at = 101\<rparr>,
          \<lparr>result_pk = 3, result_session_id = ''s1'', result_type = ''insights'',
            result_data = fallback_insights, created_at = 102\<rparr>]\<rparr>,
      [Load_dataset, Request_insights, Compose_report, Save_result ''profile'',
       Save_result ''charts'', Save_result ''insights'', Save_result ''report''])"
  unfolding run_analysis_def demo_load demo_insights
  by (simp add: persist_results_def demo_environment_def demo_database_def empty_def city_frame_def
      save_analysis_result_def update_session_status_def demo_agent_def py_str_def Let_def)

lemma demo_agent_session: "agent_session_id demo_agent = ''s1''"
  by (simp add: demo_agent_def)

theorem run_analysis_status_witness:
  "fst (run_analysis (demo_environment (csv_reader city_frame) (\<lambda>k. True)) demo_agent demo_database) \<and>
   sessions (fst (snd
     (run_analysis (demo_environment (csv_reader city_frame) (\<lambda>k. True)) demo_agent demo_database)))
     = sessions (update_session_status ''s1'' ''completed'' demo_database) \<and>
   \<not> fst (run_analysis (demo_environment (csv_reader city_frame) (\<lambda>k. k \<noteq> 3)) demo_agent demo_database) \<and>
   sessions (fst (snd
     (run_analysis (demo_environment (csv_reader city_frame) (\<lambda>k. k \<noteq> 3)) demo_agent demo_database)))
     = sessions demo_database \<and>
   map status (sessions demo_database) = [''uploaded''] \<and>
   map status (sessions (update_session_status ''s1'' ''completed'' demo_database)) = [''completed'']"
proof -
  have a: "sessions (fst (snd
     (run_analysis (demo_environment (csv_reader city_frame) (\<lambda>k. True)) demo_agent demo_database)))
     = sessions (update_session_status ''s1'' ''completed'' demo_database)"
    using run_analysis_status [OF demo_run_complete]
    unfolding demo_run_complete demo_agent_session by simp
  have b: "sessions (fst (snd
     (run_analysis (demo_environment (csv_reader city_frame) (\<lambda>k. k \<noteq> 3)) demo_agent demo_database)))
     = sessions demo_database"
    using run_analysis_status [OF demo_run_failed_write]
    unfolding demo_run_failed_write by simp
  have c: "map status (sessions demo_database) = [''uploaded''] \<and>
     map status (sessions (update_session_status ''s1'' ''completed'' demo_database)) = [''completed'']"
    by (simp add: demo_database_def update_session_status_def)
  have d: "fst (run_analysis (demo_environment (csv_reader city_frame) (\<lambda>k. True)) demo_agent demo_database) \<and>
     \<not> fst (run_analysis (demo_environment (csv_reader city_frame) (\<lambda>k. k \<noteq> 3)) demo_agent demo_database)"
    by (simp add: demo_run_complete demo_run_failed_write)
  from a b c d show ?thesis by blast
qed

end
